theory Spec2Isabelle
  imports Complex_Main "HOL-Library.Sublist" "HOL-Library.List_Lexorder" "HOL-Library.Char_ord"
begin

section \<open>JavaScript values and helpers\<close>

text \<open>
  A thrown value. \<open>Error m\<close> is \<open>new Error(m)\<close>; \<open>TypeError\<close> and \<open>SyntaxError\<close> are the
  errors the runtime itself raises (reading a property of \<open>undefined\<close>, a failed
  \<open>JSON.parse\<close>); \<open>Thrown\<close> is a thrown value that has no \<open>message\<close> property.
\<close>

datatype js_error = Error string | TypeError string | SyntaxError string | Thrown

fun message :: "js_error \<Rightarrow> string option" where
  "message (Error m) = Some m"
| "message (TypeError m) = Some m"
| "message (SyntaxError m) = Some m"
| "message Thrown = None"

text \<open>\<open>s.includes(sub)\<close>: \<open>sub\<close> occurs in \<open>s\<close> as a contiguous substring.\<close>

fun includes_str :: "string \<Rightarrow> string \<Rightarrow> bool" where
  "includes_str [] sub = (sub = [])"
| "includes_str (c # cs) sub = (prefix sub (c # cs) \<or> includes_str cs sub)"

text \<open>\<open>error.message?.includes(sub)\<close>: falsy when the thrown value has no message.\<close>

definition message_includes :: "js_error \<Rightarrow> string \<Rightarrow> bool" where
  "message_includes e sub = (case message e of None \<Rightarrow> False | Some m \<Rightarrow> includes_str m sub)"

text \<open>\<open>n.toString()\<close> for an integral number, in decimal.\<close>

fun digits_of_nat :: "nat \<Rightarrow> string" where
  "digits_of_nat n =
     (if n < 10 then [''0123456789'' ! n]
      else digits_of_nat (n div 10) @ [''0123456789'' ! (n mod 10)])"

declare digits_of_nat.simps [simp del]

definition toString :: "int \<Rightarrow> string" where
  "toString i = (if i < 0 then CHR ''-'' # digits_of_nat (nat (- i)) else digits_of_nat (nat i))"

text \<open>
  A JSON-like value: what metadata fields, filter values and parsed filter
  expressions hold. An absent property (\<open>undefined\<close>) is \<open>None\<close> of an option.
\<close>

datatype jvalue =
    JNull
  | JBool bool
  | JNum real
  | JStr string
  | JArr "jvalue list"
  | JObj "(string \<times> jvalue) list"

text \<open>The values that \<open>x || y\<close> and \<open>!x\<close> treat as false.\<close>

fun falsy :: "jvalue option \<Rightarrow> bool" where
  "falsy None = True"
| "falsy (Some JNull) = True"
| "falsy (Some (JBool b)) = (\<not> b)"
| "falsy (Some (JNum r)) = (r = 0)"
| "falsy (Some (JStr s)) = (s = [])"
| "falsy (Some (JArr _)) = False"
| "falsy (Some (JObj _)) = False"

text \<open>\<open>x || ''\<close> on a property that may be absent.\<close>

definition or_empty :: "jvalue option \<Rightarrow> jvalue" where
  "or_empty x = (if falsy x then JStr [] else the x)"

text \<open>\<open>s || ''\<close> and \<open>s || d\<close> on a string that may be absent or null.\<close>

definition str_or :: "string option \<Rightarrow> string \<Rightarrow> string" where
  "str_or x d = (case x of None \<Rightarrow> d | Some s \<Rightarrow> if s = [] then d else s)"

text \<open>\<open>n || d\<close> on a number that may be absent.\<close>

definition num_or :: "int option \<Rightarrow> int \<Rightarrow> int" where
  "num_or x d = (case x of None \<Rightarrow> d | Some n \<Rightarrow> if n = 0 then d else n)"

text \<open>\<open>xs?.[i]\<close>: \<open>undefined\<close> out of range.\<close>

definition nth_opt :: "'a list \<Rightarrow> nat \<Rightarrow> 'a option" where
  "nth_opt xs i = (if i < length xs then Some (xs ! i) else None)"

text \<open>
  \<open>s.trim()\<close> and \<open>s.split('=')\<close>. Strings are byte strings here, so \<open>trim\<close> strips the
  ASCII white space (space, tab, line feed, vertical tab, form feed, carriage return).
\<close>

definition is_space :: "char \<Rightarrow> bool" where
  "is_space c = (c \<in> set [CHR '' '', CHR 0x09, CHR 0x0A, CHR 0x0B, CHR 0x0C, CHR 0x0D])"

definition trim :: "string \<Rightarrow> string" where
  "trim s = rev (dropWhile is_space (rev (dropWhile is_space s)))"

fun split_on :: "char \<Rightarrow> string \<Rightarrow> string list" where
  "split_on sep [] = [[]]"
| "split_on sep (c # cs) =
     (if c = sep then [] # split_on sep cs
      else (case split_on sep cs of [] \<Rightarrow> [[c]] | p # ps \<Rightarrow> (c # p) # ps))"

section \<open>The OpenRouter embedding provider\<close>

record OpenRouterEmbeddingConfig =
  apiKey :: string
  baseUrl :: "string option"
  model :: string

record EmbeddingVector =
  ev_vector :: "real list"
  ev_dimension :: nat

text \<open>
  The request \<open>embedBatch\<close> hands to \<open>fetch\<close> (the body is kept structured: it is the
  object given to \<open>JSON.stringify\<close>), and the reply: \<open>ok\<close>, \<open>status\<close>, \<open>statusText\<close> and
  the outcome of \<open>response.json()\<close>. The parsed reply is read as \<open>data.data\<close>, a list
  of items with an \<open>embedding\<close>; a missing \<open>data\<close> array or \<open>embedding\<close> is \<open>None\<close>.
\<close>

record http_request =
  url :: string
  http_method :: string
  headers :: "(string \<times> string) list"
  body_model :: string
  body_input :: "string list"

record embedding_item =
  embedding :: "real list option"

record http_response =
  ok :: bool
  status :: nat
  statusText :: string
  json :: "js_error + embedding_item list option"

text \<open>
  What the provider takes from outside this file: \<open>preprocessTexts\<close> of the base
  class \<open>Embedding\<close> and the global \<open>fetch\<close>, which acts on the outside world \<open>'w\<close>.
\<close>

record 'w embedding_runtime =
  preprocessTexts :: "string list \<Rightarrow> string list"
  fetch :: "http_request \<Rightarrow> 'w \<Rightarrow> (js_error + http_response) \<times> 'w"

definition embeddings_request :: "OpenRouterEmbeddingConfig \<Rightarrow> string list \<Rightarrow> http_request" where
  "embeddings_request config processedTexts =
     \<lparr> url = str_or (baseUrl config) ''https://openrouter.ai/api/v1'' @ ''/embeddings'',
       http_method = ''POST'',
       headers =
         [(''Authorization'', ''Bearer '' @ apiKey config),
          (''Content-Type'', ''application/json''),
          (''HTTP-Referer'', ''https://github.com/zilliztech/claude-context''),
          (''X-Title'', ''Claude Context'')],
       body_model = model config,
       body_input = processedTexts \<rparr>"

text \<open>
  \<open>data.data.map(item => ({vector: item.embedding, dimension: item.embedding.length}))\<close>:
  one vector per item, in the order of the items; the first item without an
  embedding makes \<open>.length\<close> throw.
\<close>

fun map_items :: "embedding_item list \<Rightarrow> js_error + EmbeddingVector list" where
  "map_items [] = Inr []"
| "map_items (item # items) =
     (case embedding item of
        None \<Rightarrow> Inl (TypeError ''Cannot read properties of undefined (reading length)'')
      | Some e \<Rightarrow>
          (case map_items items of
             Inl err \<Rightarrow> Inl err
           | Inr vs \<Rightarrow> Inr (\<lparr> ev_vector = e, ev_dimension = length e \<rparr> # vs)))"

definition embedBatch ::
  "'w embedding_runtime \<Rightarrow> OpenRouterEmbeddingConfig \<Rightarrow> string list \<Rightarrow> 'w
    \<Rightarrow> (js_error + EmbeddingVector list) \<times> 'w" where
  "embedBatch rt config texts w =
     (let processedTexts = preprocessTexts rt texts in
      case fetch rt (embeddings_request config processedTexts) w of
        (Inl err, w') \<Rightarrow> (Inl err, w')
      | (Inr response, w') \<Rightarrow>
          if \<not> ok response then
            (Inl (Error (''OpenRouter API error: '' @ digits_of_nat (status response)
                          @ '' '' @ statusText response)), w')
          else
            (case json response of
               Inl err \<Rightarrow> (Inl err, w')
             | Inr None \<Rightarrow> (Inl (TypeError ''Cannot read properties of undefined (reading map)''), w')
             | Inr (Some items) \<Rightarrow> (map_items items, w')))"

text \<open>\<open>embed\<close>: \<open>embeddings[0]\<close> of a batch of one, \<open>undefined\<close> when the batch came back empty.\<close>

definition embed ::
  "'w embedding_runtime \<Rightarrow> OpenRouterEmbeddingConfig \<Rightarrow> string \<Rightarrow> 'w
    \<Rightarrow> (js_error + EmbeddingVector option) \<times> 'w" where
  "embed rt config text w =
     (case embedBatch rt config [text] w of
        (Inl err, w') \<Rightarrow> (Inl err, w')
      | (Inr embeddings, w') \<Rightarrow> (Inr (nth_opt embeddings 0), w'))"

definition modelDimensions :: "(string \<times> nat) list" where
  "modelDimensions =
     [(''nomic-ai/nomic-embed-text-v1.5'', 768),
      (''nomic-ai/nomic-embed-text-v1'', 768),
      (''text-embedding-3-small'', 1536),
      (''text-embedding-3-large'', 3072),
      (''text-embedding-ada-002'', 1536),
      (''voyage-01'', 1024),
      (''voyage-code-2'', 1536),
      (''voyage-code-3'', 1536),
      (''gte-large'', 1024),
      (''gte-base'', 768),
      (''gte-small'', 384),
      (''bge-large-en-v1.5'', 1024),
      (''bge-base-en-v1.5'', 768),
      (''bge-small-en-v1.5'', 384),
      (''mxbai-embed-large'', 1024),
      (''mxbai-embed-base'', 768)]"

text \<open>
  \<open>modelDimensions[key]\<close> reads an object literal, so a key that is not in the table
  but names a member of \<open>Object.prototype\<close> yields that member (a function or an
  object, always truthy) instead of \<open>undefined\<close>.
\<close>

definition Object_prototype_keys :: "string list" where
  "Object_prototype_keys =
     [''constructor'', ''__proto__'', ''hasOwnProperty'', ''isPrototypeOf'',
      ''propertyIsEnumerable'', ''toLocaleString'', ''toString'', ''valueOf'',
      ''__defineGetter__'', ''__defineSetter__'', ''__lookupGetter__'', ''__lookupSetter__'']"

datatype js_dimension = Number nat | Inherited string

definition getDimension :: "OpenRouterEmbeddingConfig \<Rightarrow> js_dimension" where
  "getDimension config =
     (case map_of modelDimensions (model config) of
        Some d \<Rightarrow> Number (if d = 0 then 1536 else d)
      | None \<Rightarrow>
          if model config \<in> set Object_prototype_keys then Inherited (model config)
          else Number 1536)"

text \<open>
  \<open>detectDimension\<close> is declared \<open>async\<close>, so it is given the outside world like
  \<open>embedBatch\<close>; its body is \<open>return this.getDimension()\<close>.
\<close>

definition detectDimension ::
  "'w embedding_runtime \<Rightarrow> OpenRouterEmbeddingConfig \<Rightarrow> string option \<Rightarrow> 'w
    \<Rightarrow> (js_error + js_dimension) \<times> 'w" where
  "detectDimension rt config testText w = (Inr (getDimension config), w)"

text \<open>
  An example service for the closed examples below: it logs every request it
  receives and answers each with status 200 and the given items. The texts are
  passed through unchanged.
\<close>

definition answering :: "embedding_item list \<Rightarrow> http_request list embedding_runtime" where
  "answering items =
     \<lparr> preprocessTexts = (\<lambda>texts. texts),
       fetch = (\<lambda>request log.
         (Inr \<lparr> ok = True, status = 200, statusText = ''OK'', json = Inr (Some items) \<rparr>,
          log @ [request])) \<rparr>"

definition example_config :: "string \<Rightarrow> OpenRouterEmbeddingConfig" where
  "example_config m = \<lparr> apiKey = ''key'', baseUrl = None, model = m \<rparr>"

section \<open>The ChromaDB vector database adapter\<close>

type_synonym metadata = "string \<rightharpoonup> jvalue"

text \<open>
  \<open>HybridSearchRequest.data\<close> is \<open>number[] | string\<close>. \<open>hybridSearch\<close> passes it to
  \<open>search\<close> under a cast (\<open>as number[]\<close>), which checks nothing at run time, so
  \<open>search\<close> takes the same type.
\<close>

datatype request_data = Vector "real list" | Text string

record VectorDocument =
  doc_id :: string
  doc_vector :: "real list"
  doc_content :: string
  relativePath :: string
  startLine :: int
  endLine :: int
  fileExtension :: string
  doc_metadata :: metadata

text \<open>
  The document of a search result. Its \<open>relativePath\<close> and \<open>fileExtension\<close> are
  whatever the stored metadata holds under these keys, its \<open>vector\<close> is the query.
\<close>

record FoundDocument =
  found_id :: string
  found_vector :: request_data
  found_content :: string
  found_relativePath :: jvalue
  found_startLine :: int
  found_endLine :: int
  found_fileExtension :: jvalue
  found_metadata :: metadata

record SearchResult =
  document :: FoundDocument
  score :: real

record SearchOptions =
  topK :: "int option"
  filter_option :: "(string \<times> jvalue) list option"

record HybridSearchRequest =
  data :: request_data
  anns_field :: string
  request_limit :: int

record HybridSearchOptions =
  limit :: "int option"

subsection \<open>The client library\<close>

text \<open>The arguments and replies of the \<open>chromadb\<close> collection methods the adapter calls.\<close>

record add_request =
  add_ids :: "string list"
  add_embeddings :: "real list list"
  add_metadatas :: "metadata list"
  add_documents :: "string list"

record query_request =
  queryEmbeddings :: "request_data list"
  nResults :: int
  query_where :: "jvalue option"
  query_include :: "string list"

record query_response =
  res_ids :: "string list list option"
  res_metadatas :: "metadata option list list option"
  res_documents :: "string option list list option"
  res_distances :: "real option list list option"

record get_request =
  get_where :: "jvalue option"
  get_limit :: int
  get_include :: "string list"

record get_response =
  got_ids :: "string list option"
  got_metadatas :: "metadata option list option"
  got_documents :: "string option list option"

text \<open>
  What the adapter takes from outside this file: the \<open>ChromaClient\<close> of the
  \<open>chromadb\<close> package and the collection objects it hands out (\<open>'h\<close>), acting on the
  state \<open>'b\<close> of the database server, and the built-ins \<open>JSON.parse\<close> (\<open>None\<close>: it
  throws), \<open>parseInt\<close> (\<open>None\<close>: \<open>NaN\<close>) and the subtraction of numbers. A number is
  an IEEE 754 double: a finite one is a real, and \<open>a - b\<close> is not the exact
  difference but the double nearest to it, so \<open>subtract\<close> is taken from the
  runtime too. Every property below that names a runtime \<open>rt\<close> holds for any
  behaviour of these, but for what its hypotheses say of them.
\<close>

record ('b, 'h) chroma_runtime =
  client_createCollection :: "string \<Rightarrow> metadata \<Rightarrow> 'b \<Rightarrow> (js_error + 'h) \<times> 'b"
  client_getOrCreateCollection :: "string \<Rightarrow> 'b \<Rightarrow> (js_error + 'h) \<times> 'b"
  client_deleteCollection :: "string \<Rightarrow> 'b \<Rightarrow> (js_error + unit) \<times> 'b"
  collection_add :: "'h \<Rightarrow> add_request \<Rightarrow> 'b \<Rightarrow> (js_error + unit) \<times> 'b"
  collection_query :: "'h \<Rightarrow> query_request \<Rightarrow> 'b \<Rightarrow> (js_error + query_response) \<times> 'b"
  collection_get :: "'h \<Rightarrow> get_request \<Rightarrow> 'b \<Rightarrow> (js_error + get_response) \<times> 'b"
  collection_delete :: "'h \<Rightarrow> string list \<Rightarrow> 'b \<Rightarrow> (js_error + unit) \<times> 'b"
  JSON_parse :: "string \<Rightarrow> jvalue option"
  parseInt :: "jvalue option \<Rightarrow> int option"
  subtract :: "real \<Rightarrow> real \<Rightarrow> real"

subsection \<open>The adapter\<close>

text \<open>
  The adapter object: its \<open>collections\<close> cache, and the state of the server its
  client talks to.
\<close>

record ('b, 'h) ChromaDBVectorDatabase =
  collections :: "string \<rightharpoonup> 'h"
  backend :: 'b

definition collection_metadata :: "string \<Rightarrow> int \<Rightarrow> string option \<Rightarrow> metadata" where
  "collection_metadata collectionName dimension description =
     [''description'' \<mapsto> JStr (str_or description (''Collection for '' @ collectionName)),
      ''dimension'' \<mapsto> JStr (toString dimension)]"

definition createCollection ::
  "('b, 'h) chroma_runtime \<Rightarrow> string \<Rightarrow> int \<Rightarrow> string option
    \<Rightarrow> ('b, 'h) ChromaDBVectorDatabase \<Rightarrow> (js_error + unit) \<times> ('b, 'h) ChromaDBVectorDatabase" where
  "createCollection rt collectionName dimension description s =
     (case client_createCollection rt collectionName
             (collection_metadata collectionName dimension description) (backend s) of
        (Inr collection, b) \<Rightarrow>
          (Inr (), \<lparr> collections = (collections s)(collectionName \<mapsto> collection), backend = b \<rparr>)
      | (Inl error, b) \<Rightarrow>
          if message_includes error ''already exists'' then
            (case client_getOrCreateCollection rt collectionName b of
               (Inr collection, b') \<Rightarrow>
                 (Inr (), \<lparr> collections = (collections s)(collectionName \<mapsto> collection),
                            backend = b' \<rparr>)
             | (Inl error', b') \<Rightarrow> (Inl error', \<lparr> collections = collections s, backend = b' \<rparr>))
          else (Inl error, \<lparr> collections = collections s, backend = b \<rparr>))"

definition createHybridCollection ::
  "('b, 'h) chroma_runtime \<Rightarrow> string \<Rightarrow> int \<Rightarrow> string option
    \<Rightarrow> ('b, 'h) ChromaDBVectorDatabase \<Rightarrow> (js_error + unit) \<times> ('b, 'h) ChromaDBVectorDatabase" where
  "createHybridCollection rt collectionName dimension description s =
     createCollection rt collectionName dimension description s"


text \<open>
  \<open>getOrCreateCollection\<close>: the cached collection object; else the client's own
  get-or-create; else, when that throws, \<open>createCollection(collectionName, 1536)\<close>
  and the entry it cached. (\<open>createCollection\<close> caches an entry whenever it
  returns, so the last \<open>None\<close> case, the \<open>undefined\<close> that \<open>get(...)!\<close> would hand to
  the caller, is never taken.)
\<close>

definition getOrCreateCollection ::
  "('b, 'h) chroma_runtime \<Rightarrow> string
    \<Rightarrow> ('b, 'h) ChromaDBVectorDatabase \<Rightarrow> (js_error + 'h) \<times> ('b, 'h) ChromaDBVectorDatabase" where
  "getOrCreateCollection rt collectionName s =
     (case collections s collectionName of
        Some collection \<Rightarrow> (Inr collection, s)
      | None \<Rightarrow>
          (case client_getOrCreateCollection rt collectionName (backend s) of
             (Inr collection, b) \<Rightarrow>
               (Inr collection,
                \<lparr> collections = (collections s)(collectionName \<mapsto> collection), backend = b \<rparr>)
           | (Inl _, b) \<Rightarrow>
               (case createCollection rt collectionName 1536 None
                       \<lparr> collections = collections s, backend = b \<rparr> of
                  (Inl error, s') \<Rightarrow> (Inl error, s')
                | (Inr _, s') \<Rightarrow>
                    (case collections s' collectionName of
                       Some collection \<Rightarrow> (Inr collection, s')
                     | None \<Rightarrow> (Inl (TypeError ''collection is undefined''), s')))))"

definition stored_metadata :: "VectorDocument \<Rightarrow> metadata" where
  "stored_metadata doc =
     [''content'' \<mapsto> JStr (doc_content doc),
      ''relativePath'' \<mapsto> JStr (relativePath doc),
      ''startLine'' \<mapsto> JStr (toString (startLine doc)),
      ''endLine'' \<mapsto> JStr (toString (endLine doc)),
      ''fileExtension'' \<mapsto> JStr (fileExtension doc)] ++ doc_metadata doc"

definition add_request_of :: "VectorDocument list \<Rightarrow> add_request" where
  "add_request_of documents =
     \<lparr> add_ids = map doc_id documents,
       add_embeddings = map doc_vector documents,
       add_metadatas = map stored_metadata documents,
       add_documents = map doc_content documents \<rparr>"

text \<open>\<open>insert\<close> (the name is taken in HOL).\<close>

definition insert_documents ::
  "('b, 'h) chroma_runtime \<Rightarrow> string \<Rightarrow> VectorDocument list
    \<Rightarrow> ('b, 'h) ChromaDBVectorDatabase \<Rightarrow> (js_error + unit) \<times> ('b, 'h) ChromaDBVectorDatabase" where
  "insert_documents rt collectionName documents s =
     (case getOrCreateCollection rt collectionName s of
        (Inl error, s') \<Rightarrow> (Inl error, s')
      | (Inr collection, s') \<Rightarrow>
          (case collection_add rt collection (add_request_of documents) (backend s') of
             (r, b) \<Rightarrow> (r, \<lparr> collections = collections s', backend = b \<rparr>)))"

definition insertHybrid ::
  "('b, 'h) chroma_runtime \<Rightarrow> string \<Rightarrow> VectorDocument list
    \<Rightarrow> ('b, 'h) ChromaDBVectorDatabase \<Rightarrow> (js_error + unit) \<times> ('b, 'h) ChromaDBVectorDatabase" where
  "insertHybrid rt collectionName documents s = insert_documents rt collectionName documents s"

text \<open>
  \<open>whereClause[key] = {$eq: value}\<close> on an object literal: a new key is appended,
  a key already present keeps its place. Assigning to the key \<open>__proto__\<close> sets the
  prototype and adds no property.
\<close>

fun assign :: "string \<Rightarrow> jvalue \<Rightarrow> (string \<times> jvalue) list \<Rightarrow> (string \<times> jvalue) list" where
  "assign k v [] = [(k, v)]"
| "assign k v ((k', v') # ps) = (if k = k' then (k, v) # ps else (k', v') # assign k v ps)"

definition buildWhereClause :: "(string \<times> jvalue) list option \<Rightarrow> jvalue option" where
  "buildWhereClause filter_opt =
     (case filter_opt of
        None \<Rightarrow> None
      | Some entries \<Rightarrow>
          Some (JObj (fold (\<lambda>(key, v) whereClause.
                         if key = ''__proto__'' then whereClause
                         else assign key (JObj [(''$eq'', v)]) whereClause) entries [])))"

definition parseFilterExpression :: "('b, 'h) chroma_runtime \<Rightarrow> string \<Rightarrow> jvalue option" where
  "parseFilterExpression rt filter_str =
     (case JSON_parse rt filter_str of
        Some v \<Rightarrow> Some v
      | None \<Rightarrow>
          (let parts = split_on CHR ''='' filter_str in
           if length parts = 2 then
             Some (JObj [(trim (parts ! 0), JObj [(''$eq'', JStr (trim (parts ! 1)))])])
           else None))"

text \<open>\<open>rows?.[0]?.[index]\<close>.\<close>

definition cell :: "'a list list option \<Rightarrow> nat \<Rightarrow> 'a option" where
  "cell rows index =
     (case rows of
        None \<Rightarrow> None
      | Some [] \<Rightarrow> None
      | Some (row # _) \<Rightarrow> nth_opt row index)"

text \<open>\<open>d || 0\<close> on a distance (a finite number) that may be absent or null.\<close>

definition distance_or_0 :: "real option option \<Rightarrow> real" where
  "distance_or_0 d = (case d of Some (Some x) \<Rightarrow> x | _ \<Rightarrow> 0)"

text \<open>The body of the callback that \<open>search\<close> maps over \<open>results.metadatas[0]\<close>.\<close>

definition search_result ::
  "('b, 'h) chroma_runtime \<Rightarrow> query_response \<Rightarrow> request_data \<Rightarrow> metadata \<Rightarrow> nat \<Rightarrow> SearchResult" where
  "search_result rt results queryVector md index =
     \<lparr> document =
         \<lparr> found_id = str_or (cell (res_ids results) index) [],
           found_vector = queryVector,
           found_content = str_or (Option.bind (cell (res_documents results) index) (\<lambda>d. d)) [],
           found_relativePath = or_empty (md ''relativePath''),
           found_startLine = num_or (parseInt rt (md ''startLine'')) 0,
           found_endLine = num_or (parseInt rt (md ''endLine'')) 0,
           found_fileExtension = or_empty (md ''fileExtension''),
           found_metadata = md \<rparr>,
       score = subtract rt 1 (distance_or_0 (cell (res_distances results) index)) \<rparr>"

text \<open>
  \<open>results.metadatas[0].map((metadata, index) => ...)\<close>; a \<open>null\<close> metadata makes
  the callback throw on \<open>metadata.relativePath\<close>.
\<close>

fun map_results ::
  "('b, 'h) chroma_runtime \<Rightarrow> query_response \<Rightarrow> request_data \<Rightarrow> nat \<Rightarrow> metadata option list
    \<Rightarrow> js_error + SearchResult list" where
  "map_results rt results queryVector index [] = Inr []"
| "map_results rt results queryVector index (None # rest) =
     Inl (TypeError ''Cannot read properties of null (reading relativePath)'')"
| "map_results rt results queryVector index (Some md # rest) =
     (case map_results rt results queryVector (Suc index) rest of
        Inl error \<Rightarrow> Inl error
      | Inr hits \<Rightarrow> Inr (search_result rt results queryVector md index # hits))"

definition search_results ::
  "('b, 'h) chroma_runtime \<Rightarrow> query_response \<Rightarrow> request_data \<Rightarrow> js_error + SearchResult list" where
  "search_results rt results queryVector =
     (if res_metadatas results = None \<or> res_documents results = None
         \<or> res_distances results = None then Inr []
      else
        (case the (res_metadatas results) of
           [] \<Rightarrow> Inl (TypeError ''Cannot read properties of undefined (reading map)'')
         | row # _ \<Rightarrow> map_results rt results queryVector 0 row))"

definition search_request :: "request_data \<Rightarrow> SearchOptions \<Rightarrow> query_request" where
  "search_request queryVector options =
     \<lparr> queryEmbeddings = [queryVector],
       nResults = num_or (topK options) 10,
       query_where = buildWhereClause (filter_option options),
       query_include = [''metadatas'', ''documents'', ''distances''] \<rparr>"

definition search ::
  "('b, 'h) chroma_runtime \<Rightarrow> string \<Rightarrow> request_data \<Rightarrow> SearchOptions
    \<Rightarrow> ('b, 'h) ChromaDBVectorDatabase
    \<Rightarrow> (js_error + SearchResult list) \<times> ('b, 'h) ChromaDBVectorDatabase" where
  "search rt collectionName queryVector options s =
     (case getOrCreateCollection rt collectionName s of
        (Inl error, s') \<Rightarrow> (Inl error, s')
      | (Inr collection, s') \<Rightarrow>
          (case collection_query rt collection (search_request queryVector options) (backend s') of
             (Inl error, b) \<Rightarrow> (Inl error, \<lparr> collections = collections s', backend = b \<rparr>)
           | (Inr results, b) \<Rightarrow>
               (search_results rt results queryVector,
                \<lparr> collections = collections s', backend = b \<rparr>)))"

definition hybridSearch ::
  "('b, 'h) chroma_runtime \<Rightarrow> string \<Rightarrow> HybridSearchRequest list \<Rightarrow> HybridSearchOptions
    \<Rightarrow> ('b, 'h) ChromaDBVectorDatabase
    \<Rightarrow> (js_error + SearchResult list) \<times> ('b, 'h) ChromaDBVectorDatabase" where
  "hybridSearch rt collectionName searchRequests options s =
     (case find (\<lambda>req. anns_field req = ''vector'') searchRequests of
        None \<Rightarrow> (Inl (Error ''Dense vector search request is required for hybrid search''), s)
      | Some denseRequest \<Rightarrow>
          (case search rt collectionName (data denseRequest)
                  \<lparr> topK = Some (num_or (limit options) (request_limit denseRequest)),
                    filter_option = None \<rparr> s of
             (Inl error, s') \<Rightarrow> (Inl error, s')
           | (Inr denseResults, s') \<Rightarrow>
               (Inr (map (\<lambda>result. \<lparr> document = document result, score = score result \<rparr>)
                       denseResults), s')))"

text \<open>\<open>delete\<close>.\<close>

definition delete_documents ::
  "('b, 'h) chroma_runtime \<Rightarrow> string \<Rightarrow> string list
    \<Rightarrow> ('b, 'h) ChromaDBVectorDatabase \<Rightarrow> (js_error + unit) \<times> ('b, 'h) ChromaDBVectorDatabase" where
  "delete_documents rt collectionName ids s =
     (case getOrCreateCollection rt collectionName s of
        (Inl error, s') \<Rightarrow> (Inl error, s')
      | (Inr collection, s') \<Rightarrow>
          (case collection_delete rt collection ids (backend s') of
             (r, b) \<Rightarrow> (r, \<lparr> collections = collections s', backend = b \<rparr>)))"

text \<open>
  The rows of \<open>query\<close>: \<open>{id: ..., content: ..., ...metadata}\<close> for each entry of
  \<open>results.metadatas\<close>, by index.
\<close>

definition query_row :: "get_response \<Rightarrow> metadata option \<Rightarrow> nat \<Rightarrow> metadata" where
  "query_row results md index =
     [''id'' \<mapsto> JStr (str_or (Option.bind (got_ids results) (\<lambda>ids. nth_opt ids index)) []),
      ''content'' \<mapsto>
          JStr (str_or (Option.bind (Option.bind (got_documents results)
                           (\<lambda>docs. nth_opt docs index)) (\<lambda>d. d)) [])]
     ++ (case md of None \<Rightarrow> Map.empty | Some m \<Rightarrow> m)"

definition query_rows :: "get_response \<Rightarrow> metadata list" where
  "query_rows results =
     (if got_metadatas results = None \<or> got_documents results = None then []
      else map (\<lambda>(md, index). query_row results md index)
             (zip (the (got_metadatas results)) [0 ..< length (the (got_metadatas results))]))"

definition query ::
  "('b, 'h) chroma_runtime \<Rightarrow> string \<Rightarrow> string \<Rightarrow> string list \<Rightarrow> int option
    \<Rightarrow> ('b, 'h) ChromaDBVectorDatabase
    \<Rightarrow> (js_error + metadata list) \<times> ('b, 'h) ChromaDBVectorDatabase" where
  "query rt collectionName filter_str outputFields limit_opt s =
     (case getOrCreateCollection rt collectionName s of
        (Inl error, s') \<Rightarrow> (Inl error, s')
      | (Inr collection, s') \<Rightarrow>
          (case collection_get rt collection
                  \<lparr> get_where = parseFilterExpression rt filter_str,
                    get_limit = num_or limit_opt 100,
                    get_include = [''metadatas'', ''documents''] \<rparr> (backend s') of
             (Inl error, b) \<Rightarrow> (Inl error, \<lparr> collections = collections s', backend = b \<rparr>)
           | (Inr results, b) \<Rightarrow>
               (Inr (query_rows results), \<lparr> collections = collections s', backend = b \<rparr>)))"

section \<open>An example database\<close>

text \<open>
  For the closed examples below: an in-memory database that stands in for the
  server behind the client. Its operations do what the \<open>chromadb\<close> documentation
  says of the calls the adapter makes: \<open>createCollection\<close> refuses a name that is
  taken with an error that says \<open>already exists\<close>; \<open>getOrCreateCollection\<close> returns
  the collection of that name, creating it empty when there is none;
  \<open>add\<close> stores the records whose id is new and skips a record whose id is already
  stored (overwriting is a different call, \<open>upsert\<close>), and it accepts vectors of
  any length into an empty collection whatever its metadata says; \<open>query\<close> returns
  the nearest stored records, nearest first. A collection object is its name.
\<close>

record stored_record =
  rec_id :: string
  rec_embedding :: "real list"
  rec_metadata :: metadata
  rec_document :: string

record stored_collection =
  coll_metadata :: metadata
  coll_records :: "stored_record list"

type_synonym memory = "string \<rightharpoonup> stored_collection"

definition squared_l2 :: "real list \<Rightarrow> real list \<Rightarrow> real" where
  "squared_l2 q v = sum_list (map (\<lambda>(x, y). (x - y) ^ 2) (zip q v))"

definition matches :: "jvalue option \<Rightarrow> metadata \<Rightarrow> bool" where
  "matches w md =
     (case w of
        None \<Rightarrow> True
      | Some (JObj clauses) \<Rightarrow>
          list_all (\<lambda>(k, c). case c of JObj [(operator, v)] \<Rightarrow> operator = ''$eq'' \<and> md k = Some v
                                    | _ \<Rightarrow> False) clauses
      | Some _ \<Rightarrow> False)"

definition records_of :: "add_request \<Rightarrow> stored_record list" where
  "records_of req =
     map (\<lambda>(i, e, m, d). \<lparr> rec_id = i, rec_embedding = e, rec_metadata = m, rec_document = d \<rparr>)
       (zip (add_ids req) (zip (add_embeddings req) (zip (add_metadatas req) (add_documents req))))"

definition no_such_collection :: js_error where
  "no_such_collection = Error ''Collection does not exist''"

definition memory_createCollection :: "string \<Rightarrow> metadata \<Rightarrow> memory \<Rightarrow> (js_error + string) \<times> memory" where
  "memory_createCollection name md b =
     (case b name of
        Some _ \<Rightarrow> (Inl (Error (''Collection '' @ name @ '' already exists'')), b)
      | None \<Rightarrow> (Inr name, b(name \<mapsto> \<lparr> coll_metadata = md, coll_records = [] \<rparr>)))"

definition memory_getOrCreateCollection :: "string \<Rightarrow> memory \<Rightarrow> (js_error + string) \<times> memory" where
  "memory_getOrCreateCollection name b =
     (case b name of
        Some _ \<Rightarrow> (Inr name, b)
      | None \<Rightarrow> (Inr name, b(name \<mapsto> \<lparr> coll_metadata = Map.empty, coll_records = [] \<rparr>)))"

definition memory_deleteCollection :: "string \<Rightarrow> memory \<Rightarrow> (js_error + unit) \<times> memory" where
  "memory_deleteCollection name b =
     (case b name of
        Some _ \<Rightarrow> (Inr (), b(name := None))
      | None \<Rightarrow> (Inl (Error (''Collection '' @ name @ '' not found'')), b))"

definition memory_add :: "string \<Rightarrow> add_request \<Rightarrow> memory \<Rightarrow> (js_error + unit) \<times> memory" where
  "memory_add h req b =
     (case b h of
        None \<Rightarrow> (Inl no_such_collection, b)
      | Some c \<Rightarrow>
          if \<not> distinct (add_ids req) then (Inl (Error ''Expected IDs to be unique''), b)
          else
            (Inr (),
             b(h \<mapsto> c\<lparr> coll_records :=
                        coll_records c
                        @ filter (\<lambda>r. rec_id r \<notin> set (map rec_id (coll_records c)))
                            (records_of req) \<rparr>)))"

definition memory_hits :: "real list \<Rightarrow> query_request \<Rightarrow> stored_collection \<Rightarrow> stored_record list" where
  "memory_hits q req c =
     take (nat (nResults req))
       (sort_key (\<lambda>r. squared_l2 q (rec_embedding r))
          (filter (\<lambda>r. matches (query_where req) (rec_metadata r)) (coll_records c)))"

definition memory_query :: "string \<Rightarrow> query_request \<Rightarrow> memory \<Rightarrow> (js_error + query_response) \<times> memory" where
  "memory_query h req b =
     (case b h of
        None \<Rightarrow> (Inl no_such_collection, b)
      | Some c \<Rightarrow>
          (case queryEmbeddings req of
             [Vector q] \<Rightarrow>
               (Inr \<lparr> res_ids = Some [map rec_id (memory_hits q req c)],
                      res_metadatas = Some [map (\<lambda>r. Some (rec_metadata r)) (memory_hits q req c)],
                      res_documents = Some [map (\<lambda>r. Some (rec_document r)) (memory_hits q req c)],
                      res_distances =
                        Some [map (\<lambda>r. Some (squared_l2 q (rec_embedding r))) (memory_hits q req c)] \<rparr>,
                b)
           | _ \<Rightarrow> (Inl (Error ''Expected one embedding, an array of numbers''), b)))"

definition memory_get :: "string \<Rightarrow> get_request \<Rightarrow> memory \<Rightarrow> (js_error + get_response) \<times> memory" where
  "memory_get h req b =
     (case b h of
        None \<Rightarrow> (Inl no_such_collection, b)
      | Some c \<Rightarrow>
          (let found = take (nat (get_limit req))
                         (filter (\<lambda>r. matches (get_where req) (rec_metadata r)) (coll_records c))
           in (Inr \<lparr> got_ids = Some (map rec_id found),
                     got_metadatas = Some (map (\<lambda>r. Some (rec_metadata r)) found),
                     got_documents = Some (map (\<lambda>r. Some (rec_document r)) found) \<rparr>, b)))"

definition memory_delete :: "string \<Rightarrow> string list \<Rightarrow> memory \<Rightarrow> (js_error + unit) \<times> memory" where
  "memory_delete h ids b =
     (case b h of
        None \<Rightarrow> (Inl no_such_collection, b)
      | Some c \<Rightarrow>
          (Inr (), b(h \<mapsto> c\<lparr> coll_records := filter (\<lambda>r. rec_id r \<notin> set ids) (coll_records c) \<rparr>)))"

text \<open>
  \<open>JSON.parse\<close> for the examples: its values on the three strings the examples
  parse; every other string counts as not parsable.
\<close>

definition age_filter :: string where
  \<open>age_filter = ''{"age":{"$gt":5}}''\<close>

definition example_JSON_parse :: "string \<Rightarrow> jvalue option" where
  "example_JSON_parse str =
     (if str = ''a > 5'' then None
      else if str = ''language = go'' then None
      else if str = age_filter then Some (JObj [(''age'', JObj [(''$gt'', JNum 5)])])
      else None)"

text \<open>
  \<open>parseInt\<close> for the examples: exact on an absent value, \<open>null\<close>, a boolean and a
  string holding an optionally signed decimal numeral; anything else counts as \<open>NaN\<close>.
\<close>

fun decimal_value :: "nat \<Rightarrow> string \<Rightarrow> nat" where
  "decimal_value acc [] = acc"
| "decimal_value acc (c # cs) =
     decimal_value (10 * acc + length (takeWhile (\<lambda>d. d \<noteq> c) ''0123456789'')) cs"

definition example_parseInt :: "jvalue option \<Rightarrow> int option" where
  "example_parseInt x =
     (case x of
        Some (JStr str) \<Rightarrow>
          (let t = dropWhile is_space str;
               negative = (t \<noteq> [] \<and> hd t = CHR ''-'');
               u = (if t \<noteq> [] \<and> (hd t = CHR ''-'' \<or> hd t = CHR ''+'') then tl t else t);
               ds = takeWhile (\<lambda>c. c \<in> set ''0123456789'') u
           in if ds = [] \<or> take 2 u = ''0x'' \<or> take 2 u = ''0X'' then None
              else Some (if negative then - int (decimal_value 0 ds) else int (decimal_value 0 ds)))
      | _ \<Rightarrow> None)"

text \<open>
  The subtraction for the examples. They subtract 0 and 1/4 from 1 only, where
  the exact difference is a double and so is the result of the double subtraction.
\<close>

definition example_subtract :: "real \<Rightarrow> real \<Rightarrow> real" where
  "example_subtract a b = a - b"

definition memory_runtime :: "(memory, string) chroma_runtime" where
  "memory_runtime =
     \<lparr> client_createCollection = memory_createCollection,
       client_getOrCreateCollection = memory_getOrCreateCollection,
       client_deleteCollection = memory_deleteCollection,
       collection_add = memory_add,
       collection_query = memory_query,
       collection_get = memory_get,
       collection_delete = memory_delete,
       JSON_parse = example_JSON_parse,
       parseInt = example_parseInt,
       subtract = example_subtract \<rparr>"

text \<open>
  A second example: the same database behind a client whose get-or-create call
  throws for a name that does not exist yet, so that the adapter's fallback runs.
\<close>

definition strict_runtime :: "(memory, string) chroma_runtime" where
  "strict_runtime =
     memory_runtime \<lparr> client_getOrCreateCollection :=
       (\<lambda>name b. case b name of
                    Some _ \<Rightarrow> (Inr name, b)
                  | None \<Rightarrow> (Inl no_such_collection, b)) \<rparr>"

definition fresh :: "(memory, string) ChromaDBVectorDatabase" where
  "fresh = \<lparr> collections = Map.empty, backend = Map.empty \<rparr>"

text \<open>What the examples observe of the database: the records of a collection.\<close>

definition records_in :: "memory \<Rightarrow> string \<Rightarrow> stored_record list" where
  "records_in b name = (case b name of None \<Rightarrow> [] | Some c \<Rightarrow> coll_records c)"

definition example_doc :: "string \<Rightarrow> real list \<Rightarrow> VectorDocument" where
  "example_doc i v =
     \<lparr> doc_id = i, doc_vector = v, doc_content = ''text of '' @ i, relativePath = ''src/a.ts'',
       startLine = 1, endLine = 9, fileExtension = ''.ts'', doc_metadata = Map.empty \<rparr>"

text \<open>The examples' collection \<open>c\<close> with two documents, and two search requests.\<close>

definition two_documents :: "(memory, string) ChromaDBVectorDatabase" where
  "two_documents =
     snd (insert_documents memory_runtime ''c''
            [example_doc ''a'' [1, 0], example_doc ''b'' [1, 1 / 2]] fresh)"

definition dense_request :: HybridSearchRequest where
  "dense_request = \<lparr> data = Vector [1, 0], anns_field = ''vector'', request_limit = 10 \<rparr>"

definition sparse_request :: HybridSearchRequest where
  "sparse_request = \<lparr> data = Text ''keyword'', anns_field = ''sparse_vector'', request_limit = 10 \<rparr>"



section \<open>Ranked lists and the specification's fusion rule\<close>

text \<open>A ranked list: document ids with their scores, best first.\<close>

type_synonym ranked = "(string \<times> real) list"

definition ranked_of :: "SearchResult list \<Rightarrow> ranked" where
  "ranked_of hits = map (\<lambda>hit. (found_id (document hit), score hit)) hits"

text \<open>
  The weighted fusion, written from the specification's words and not from the
  code, to compare \<open>hybridSearch\<close> with: every document of either list is a
  candidate; its fused score is the weighted sum of its two scores, a list it is
  absent from contributing zero; the candidates are ordered by descending fused
  score, ties by ascending id.
\<close>

definition score_in :: "ranked \<Rightarrow> string \<Rightarrow> real" where
  "score_in ranked_list i = (case map_of ranked_list i of None \<Rightarrow> 0 | Some x \<Rightarrow> x)"

definition ranks_before :: "string \<times> real \<Rightarrow> string \<times> real \<Rightarrow> bool" where
  "ranks_before a b = (snd b < snd a \<or> (snd a = snd b \<and> fst a \<le> fst b))"

fun insert_ranked :: "string \<times> real \<Rightarrow> ranked \<Rightarrow> ranked" where
  "insert_ranked a [] = [a]"
| "insert_ranked a (b # bs) = (if ranks_before a b then a # b # bs else b # insert_ranked a bs)"

definition spec_weighted_fusion :: "real \<Rightarrow> real \<Rightarrow> ranked \<Rightarrow> ranked \<Rightarrow> ranked" where
  "spec_weighted_fusion w_dense w_lexical dense lexical =
     foldr insert_ranked
       (map (\<lambda>i. (i, w_dense * score_in dense i + w_lexical * score_in lexical i))
          (remdups (map fst dense @ map fst lexical))) []"

section \<open>Properties of the embedding provider\<close>

lemma map_items_vectors:
  "list_all (\<lambda>item. embedding item \<noteq> None) items \<Longrightarrow>
     map_items items =
       Inr (map (\<lambda>item. \<lparr> ev_vector = the (embedding item),
                           ev_dimension = length (the (embedding item)) \<rparr>) items)"
  by (induction items) auto

text \<open>
  Claim C7, as the code has it. \<open>detectDimension\<close> makes no call: it leaves the
  outside world as it found it and returns \<open>getDimension()\<close>, whatever the test
  text. For a model that is neither in the model-to-dimension table nor a member
  name of \<open>Object.prototype\<close>, that value is the fixed default 1536.
\<close>

theorem detectDimension_is_static:
  "detectDimension rt config testText w = (Inr (getDimension config), w) \<and>
   (map_of modelDimensions (model config) = None \<longrightarrow>
    model config \<notin> set Object_prototype_keys \<longrightarrow>
      detectDimension rt config testText w = (Inr (Number 1536), w))"
  by (simp add: detectDimension_def getDimension_def)

theorem detectDimension_is_static_witness:
  "map_of modelDimensions (model (example_config ''my-custom-model'')) = None \<and>
   model (example_config ''my-custom-model'') \<notin> set Object_prototype_keys \<and>
   detectDimension (answering [\<lparr> embedding = Some [1, 2, 3] \<rparr>])
       (example_config ''my-custom-model'') (Some ''probe'') []
     = (Inr (Number 1536), [])"
proof -
  have a: "map_of modelDimensions (model (example_config ''my-custom-model'')) = None"
    by (simp add: modelDimensions_def example_config_def)
  have b: "model (example_config ''my-custom-model'') \<notin> set Object_prototype_keys"
    by (simp add: Object_prototype_keys_def example_config_def)
  from detectDimension_is_static
    [of "answering [\<lparr> embedding = Some [1, 2, 3] \<rparr>]" "example_config ''my-custom-model''"
        "Some ''probe''" "[]"]
  show ?thesis using a b by blast
qed

text \<open>
  The claim C7 as the specification words it fails: for a model outside the table,
  against a service whose vectors have length 3 (as \<open>embed\<close> shows), \<open>detectDimension\<close>
  sends no request (the log stays empty) and answers 1536.
\<close>

theorem detectDimension_no_probe_counterexample:
  "detectDimension (answering [\<lparr> embedding = Some [1, 2, 3] \<rparr>])
       (example_config ''my-custom-model'') (Some ''probe'') []
     = (Inr (Number 1536), []) \<and>
   fst (embed (answering [\<lparr> embedding = Some [1, 2, 3] \<rparr>])
       (example_config ''my-custom-model'') ''probe'' [])
     = Inr (Some \<lparr> ev_vector = [1, 2, 3], ev_dimension = 3 \<rparr>)"
  by (simp add: detectDimension_def getDimension_def modelDimensions_def
      Object_prototype_keys_def example_config_def embed_def embedBatch_def answering_def
      nth_opt_def)

lemma embedBatch_follows_response:
  assumes "fetch rt (embeddings_request config (preprocessTexts rt texts)) w = (Inr response, w')"
    and "ok response"
    and "json response = Inr (Some items)"
    and "list_all (\<lambda>item. embedding item \<noteq> None) items"
  shows "embedBatch rt config texts w =
           (Inr (map (\<lambda>item. \<lparr> ev_vector = the (embedding item),
                                  ev_dimension = length (the (embedding item)) \<rparr>) items), w')"
  using assms by (simp add: embedBatch_def map_items_vectors)

text \<open>
  With a service that keeps to the contract of the embeddings endpoint, one
  embedding per input and in the order of the inputs, and a base class that
  preprocesses the texts one by one, the vectors correspond to the texts.
\<close>

lemma embedBatch_conforming_reply:
  assumes "preprocessTexts rt texts = map preprocessText texts"
    and "fetch rt (embeddings_request config (map preprocessText texts)) w = (Inr response, w')"
    and "ok response"
    and "json response
           = Inr (Some (map (\<lambda>t. \<lparr> embedding = Some (embedding_of t) \<rparr>) (map preprocessText texts)))"
  shows "embedBatch rt config texts w =
           (Inr (map (\<lambda>t. \<lparr> ev_vector = embedding_of (preprocessText t),
                               ev_dimension = length (embedding_of (preprocessText t)) \<rparr>) texts),
            w')"
proof -
  let ?items = "map (\<lambda>t. \<lparr> embedding = Some (embedding_of t) \<rparr>) (map preprocessText texts)"
  have "list_all (\<lambda>item. embedding item \<noteq> None) ?items"
    by (simp add: list_all_iff)
  with assms have "embedBatch rt config texts w =
           (Inr (map (\<lambda>item. \<lparr> ev_vector = the (embedding item),
                                  ev_dimension = length (the (embedding item)) \<rparr>) ?items), w')"
    by (intro embedBatch_follows_response) simp_all
  then show ?thesis by (simp add: comp_def)
qed

text \<open>A reply that is not OK makes \<open>embedBatch\<close> throw, with the status in the message.\<close>

lemma embedBatch_not_ok:
  assumes "fetch rt (embeddings_request config (preprocessTexts rt texts)) w = (Inr response, w')"
    and "\<not> ok response"
  shows "embedBatch rt config texts w =
           (Inl (Error (''OpenRouter API error: '' @ digits_of_nat (status response)
                         @ '' '' @ statusText response)), w')"
  using assms by (simp add: embedBatch_def)

text \<open>
  Claim C9, as the code has it. \<open>embedBatch\<close> sends one request: a POST to the
  embeddings endpoint whose body names the configured model and lists the
  preprocessed texts, all of them and in their order. When the reply is OK and
  its \<open>data\<close> array holds an embedding in every item, \<open>embedBatch\<close> returns exactly one
  vector per item of that array, in the array's order, the i-th vector being the
  i-th item's embedding with its own length as dimension: it neither drops nor
  reorders what the service sent, and it compares the reply with the texts in no
  way.
\<close>

theorem embedBatch_returns_reply_items:
  assumes "fetch rt (embeddings_request config (preprocessTexts rt texts)) w = (Inr response, w')"
    and "ok response"
    and "json response = Inr (Some items)"
    and "list_all (\<lambda>item. embedding item \<noteq> None) items"
  shows "(\<exists>vectors. embedBatch rt config texts w = (Inr vectors, w') \<and>
            length vectors = length items \<and>
            (\<forall>i < length items.
               ev_vector (vectors ! i) = the (embedding (items ! i)) \<and>
               ev_dimension (vectors ! i) = length (the (embedding (items ! i))))) \<and>
         body_input (embeddings_request config (preprocessTexts rt texts)) = preprocessTexts rt texts \<and>
         body_model (embeddings_request config (preprocessTexts rt texts)) = model config \<and>
         http_method (embeddings_request config (preprocessTexts rt texts)) = ''POST'' \<and>
         url (embeddings_request config (preprocessTexts rt texts))
           = str_or (baseUrl config) ''https://openrouter.ai/api/v1'' @ ''/embeddings'' \<and>
         map_of (headers (embeddings_request config (preprocessTexts rt texts))) ''Authorization''
           = Some (''Bearer '' @ apiKey config)"
proof -
  let ?vectors = "map (\<lambda>item. \<lparr> ev_vector = the (embedding item),
                                  ev_dimension = length (the (embedding item)) \<rparr>) items"
  have "embedBatch rt config texts w = (Inr ?vectors, w')"
    using assms by (rule embedBatch_follows_response)
  moreover have "length ?vectors = length items" by simp
  moreover have "\<forall>i < length items.
               ev_vector (?vectors ! i) = the (embedding (items ! i)) \<and>
               ev_dimension (?vectors ! i) = length (the (embedding (items ! i)))"
    by simp
  ultimately have "\<exists>vectors. embedBatch rt config texts w = (Inr vectors, w') \<and>
            length vectors = length items \<and>
            (\<forall>i < length items.
               ev_vector (vectors ! i) = the (embedding (items ! i)) \<and>
               ev_dimension (vectors ! i) = length (the (embedding (items ! i))))"
    by (intro exI [of _ ?vectors] conjI)
  then show ?thesis by (simp add: embeddings_request_def)
qed

theorem embedBatch_returns_reply_items_witness:
  "embedBatch (answering [\<lparr> embedding = Some [1, 2] \<rparr>, \<lparr> embedding = Some [3, 4] \<rparr>])
       (example_config ''gte-small'') [''alpha'', ''beta''] []
     = (Inr [\<lparr> ev_vector = [1, 2], ev_dimension = 2 \<rparr>, \<lparr> ev_vector = [3, 4], ev_dimension = 2 \<rparr>],
        [embeddings_request (example_config ''gte-small'') [''alpha'', ''beta'']]) \<and>
   body_input (embeddings_request (example_config ''gte-small'') [''alpha'', ''beta''])
     = [''alpha'', ''beta'']"
proof -
  let ?rt = "answering [\<lparr> embedding = Some [1, 2] \<rparr>, \<lparr> embedding = Some [3, 4] \<rparr>]"
  let ?items = "[\<lparr> embedding = Some [1, 2 :: real] \<rparr>, \<lparr> embedding = Some [3, 4] \<rparr>]"
  let ?response = "\<lparr> ok = True, status = 200, statusText = ''OK'', json = Inr (Some ?items) \<rparr>"
  let ?log = "[embeddings_request (example_config ''gte-small'') [''alpha'', ''beta'']]"
  have 1: "fetch ?rt (embeddings_request (example_config ''gte-small'')
                        (preprocessTexts ?rt [''alpha'', ''beta''])) []
             = (Inr ?response, ?log)"
    by (simp add: answering_def)
  have 2: "ok ?response" by simp
  have 3: "json ?response = Inr (Some ?items)" by simp
  have 4: "list_all (\<lambda>item. embedding item \<noteq> None) ?items" by simp
  note t = embedBatch_returns_reply_items [OF 1 2 3 4]
  from conjunct1 [OF t] obtain vectors where
    v: "embedBatch ?rt (example_config ''gte-small'') [''alpha'', ''beta''] [] = (Inr vectors, ?log)"
    and n: "length vectors = length ?items"
    and each: "\<forall>i < length ?items.
                 ev_vector (vectors ! i) = the (embedding (?items ! i)) \<and>
                 ev_dimension (vectors ! i) = length (the (embedding (?items ! i)))"
    by blast
  from n obtain x y where xy: "vectors = [x, y]"
    by (cases vectors; cases "tl vectors") auto
  from each have "ev_vector (vectors ! 0) = [1, 2] \<and> ev_dimension (vectors ! 0) = 2"
    and "ev_vector (vectors ! 1) = [3, 4] \<and> ev_dimension (vectors ! 1) = 2"
    by (simp_all add: nth_Cons')
  with xy have "vectors = [\<lparr> ev_vector = [1, 2], ev_dimension = 2 \<rparr>,
                           \<lparr> ev_vector = [3, 4], ev_dimension = 2 \<rparr>]"
    by simp
  with v conjunct1 [OF conjunct2 [OF t]] show ?thesis
    by (simp add: answering_def)
qed

text \<open>
  The claim C9 as the specification words it fails: two texts are sent (the log
  shows the request with both), the service answers with one item, and
  \<open>embedBatch\<close> returns, as a success, one vector for the two texts.
\<close>

theorem embedBatch_count_counterexample:
  "embedBatch (answering [\<lparr> embedding = Some [1, 2, 3] \<rparr>])
       (example_config ''gte-small'') [''alpha'', ''beta''] []
     = (Inr [\<lparr> ev_vector = [1, 2, 3], ev_dimension = 3 \<rparr>],
        [embeddings_request (example_config ''gte-small'') [''alpha'', ''beta'']])"
  by (simp add: embedBatch_def answering_def)

section \<open>Properties of the adapter\<close>

lemmas memory_defs =
  memory_runtime_def strict_runtime_def fresh_def memory_createCollection_def
  memory_getOrCreateCollection_def memory_deleteCollection_def memory_add_def memory_query_def
  memory_get_def memory_delete_def memory_hits_def records_of_def records_in_def
  no_such_collection_def example_doc_def squared_l2_def matches_def example_subtract_def

lemmas adapter_defs =
  createCollection_def getOrCreateCollection_def insert_documents_def search_def
  hybridSearch_def delete_documents_def query_def add_request_of_def search_request_def
  search_results_def search_result_def buildWhereClause_def collection_metadata_def
  message_includes_def cell_def nth_opt_def distance_or_0_def str_or_def num_or_def

lemma getOrCreateCollection_cached:
  "collections s collectionName = Some collection \<Longrightarrow>
     getOrCreateCollection rt collectionName s = (Inr collection, s)"
  by (simp add: getOrCreateCollection_def)

lemma includes_str_prefix: "prefix sub s \<Longrightarrow> includes_str s sub"
  by (cases s) simp_all

lemma includes_str_append: "includes_str (xs @ sub @ ys) sub"
  by (induction xs) (simp_all add: includes_str_prefix)

text \<open>
  Claim C1, as the code has it. \<open>insert\<close> checks no vector length. Once the
  collection is resolved, it hands the whole batch to the backend's \<open>add\<close>, every
  id and every vector as given and in order, and its outcome is the outcome of
  that call: it succeeds when \<open>add\<close> accepts the batch and fails, with the
  backend's error, when \<open>add\<close> refuses it.
\<close>

theorem insert_transmits_unchecked:
  assumes "getOrCreateCollection rt collectionName s = (Inr collection, s')"
    and "collection_add rt collection (add_request_of documents) (backend s') = (r, b)"
  shows "insert_documents rt collectionName documents s
           = (r, \<lparr> collections = collections s', backend = b \<rparr>) \<and>
         add_ids (add_request_of documents) = map doc_id documents \<and>
         add_embeddings (add_request_of documents) = map doc_vector documents"
  using assms by (simp add: insert_documents_def add_request_of_def)

theorem insert_transmits_unchecked_witness:
  "insert_documents memory_runtime ''c'' [example_doc ''x'' [1, 2, 3]]
       \<lparr> collections = [''c'' \<mapsto> ''c''],
         backend = [''c'' \<mapsto> \<lparr> coll_metadata = Map.empty, coll_records = [] \<rparr>] \<rparr>
     = (Inr (),
        \<lparr> collections = [''c'' \<mapsto> ''c''],
          backend = [''c'' \<mapsto> \<lparr> coll_metadata = Map.empty,
             coll_records = records_of (add_request_of [example_doc ''x'' [1, 2, 3]]) \<rparr>] \<rparr>)"
  using insert_transmits_unchecked
    [of memory_runtime "''c''"
        "\<lparr> collections = [''c'' \<mapsto> ''c''],
           backend = [''c'' \<mapsto> \<lparr> coll_metadata = Map.empty, coll_records = [] \<rparr>] \<rparr>"
        "''c''"
        "\<lparr> collections = [''c'' \<mapsto> ''c''],
           backend = [''c'' \<mapsto> \<lparr> coll_metadata = Map.empty, coll_records = [] \<rparr>] \<rparr>"
        "[example_doc ''x'' [1, 2, 3]]" "Inr ()"
        "[''c'' \<mapsto> \<lparr> coll_metadata = Map.empty,
             coll_records = records_of (add_request_of [example_doc ''x'' [1, 2, 3]]) \<rparr>]"]
  by (simp add: getOrCreateCollection_cached memory_runtime_def memory_add_def
      add_request_of_def records_of_def)

text \<open>
  The claim C1 as the specification words it fails: into a collection created
  with dimension 3 (its metadata says so), a batch holding one vector of length 2
  is inserted; the call succeeds and the vector is stored.
\<close>

theorem insert_dimension_counterexample:
  "map_option (\<lambda>c. coll_metadata c ''dimension'')
      (backend (snd (createCollection memory_runtime ''c'' 3 None fresh)) ''c'')
     = Some (Some (JStr ''3'')) \<and>
   fst (insert_documents memory_runtime ''c'' [example_doc ''x'' [1, 2]]
         (snd (createCollection memory_runtime ''c'' 3 None fresh))) = Inr () \<and>
   map rec_embedding (records_in (backend (snd
      (insert_documents memory_runtime ''c'' [example_doc ''x'' [1, 2]]
         (snd (createCollection memory_runtime ''c'' 3 None fresh))))) ''c'') = [[1, 2]]"
  by (simp add: memory_defs adapter_defs toString_def digits_of_nat.simps)




text \<open>
  Claim C5, as the code has it. When the backend refuses the creation with an
  error whose message contains \<open>already exists\<close>, \<open>createCollection\<close> compares no
  dimension: it fetches the collection of that name with the client's
  \<open>getOrCreateCollection\<close>, caches it and succeeds, whatever dimension and
  description it was called with.
\<close>

theorem createCollection_existing_ignores_dimension:
  assumes "client_createCollection rt collectionName
             (collection_metadata collectionName dimension description) (backend s) = (Inl error, b)"
    and "message_includes error ''already exists''"
    and "client_getOrCreateCollection rt collectionName b = (Inr collection, b')"
  shows "createCollection rt collectionName dimension description s
           = (Inr (), \<lparr> collections = (collections s)(collectionName \<mapsto> collection), backend = b' \<rparr>)"
  using assms by (simp add: createCollection_def)

theorem createCollection_existing_ignores_dimension_witness:
  "createCollection memory_runtime ''c'' 5 None
       \<lparr> collections = Map.empty,
         backend = [''c'' \<mapsto> \<lparr> coll_metadata = collection_metadata ''c'' 3 None,
                                 coll_records = [] \<rparr>] \<rparr>
     = (Inr (),
        \<lparr> collections = [''c'' \<mapsto> ''c''],
          backend = [''c'' \<mapsto> \<lparr> coll_metadata = collection_metadata ''c'' 3 None,
                                  coll_records = [] \<rparr>] \<rparr>)"
  using createCollection_existing_ignores_dimension
    [of memory_runtime "''c''" 5 None
        "\<lparr> collections = Map.empty,
           backend = [''c'' \<mapsto> \<lparr> coll_metadata = collection_metadata ''c'' 3 None,
                                   coll_records = [] \<rparr>] \<rparr>"
        "Error (''Collection '' @ ''c'' @ '' already exists'')"
        "[''c'' \<mapsto> \<lparr> coll_metadata = collection_metadata ''c'' 3 None, coll_records = [] \<rparr>]"
        "''c''"
        "[''c'' \<mapsto> \<lparr> coll_metadata = collection_metadata ''c'' 3 None, coll_records = [] \<rparr>]"]
  by (simp add: memory_runtime_def memory_createCollection_def memory_getOrCreateCollection_def
      message_includes_def)

text \<open>
  The claim C5 as the specification words it fails: a collection created with
  dimension 3 is created again with dimension 5; the second call succeeds, and the
  collection keeps the metadata of the first.
\<close>

theorem createCollection_conflict_counterexample:
  "fst (createCollection memory_runtime ''c'' 3 None fresh) = Inr () \<and>
   fst (createCollection memory_runtime ''c'' 5 None
          (snd (createCollection memory_runtime ''c'' 3 None fresh))) = Inr () \<and>
   map_option coll_metadata (backend (snd (createCollection memory_runtime ''c'' 5 None
          (snd (createCollection memory_runtime ''c'' 3 None fresh)))) ''c'')
     = Some (collection_metadata ''c'' 3 None)"
  by (simp add: memory_defs createCollection_def message_includes_def)

text \<open>
  A collection that exists in the example database answers a second creation
  with \<open>already exists\<close> and is returned unchanged by get-or-create, whatever its
  name and content.
\<close>

lemma memory_existing_collection:
  assumes "b name = Some c"
  shows "memory_createCollection name md b
           = (Inl (Error (''Collection '' @ name @ '' already exists'')), b)"
    and "message_includes (Error (''Collection '' @ name @ '' already exists'')) ''already exists''"
    and "memory_getOrCreateCollection name b = (Inr name, b)"
proof -
  show "memory_createCollection name md b
           = (Inl (Error (''Collection '' @ name @ '' already exists'')), b)"
    using assms by (simp add: memory_createCollection_def)
  have "includes_str ((''Collection '' @ name @ '' '') @ ''already exists'' @ []) ''already exists''"
    by (rule includes_str_append)
  then show "message_includes (Error (''Collection '' @ name @ '' already exists'')) ''already exists''"
    by (simp add: message_includes_def)
  show "memory_getOrCreateCollection name b = (Inr name, b)"
    using assms by (simp add: memory_getOrCreateCollection_def)
qed

text \<open>
  Claim C6. The first \<open>createCollection\<close> succeeds when the backend creates the
  collection. A second call with the same name and dimension, made in any later
  state of the database in which the backend reports the name as existing
  (its creation is refused with \<open>already exists\<close> and its get-or-create returns the
  collection, neither changing the database), succeeds too and leaves the
  database exactly as it was: everything stored by or after the first call stays.
\<close>

theorem createCollection_idempotent:
  assumes "client_createCollection rt collectionName
             (collection_metadata collectionName dimension description) (backend s) = (Inr created, b1)"
    and "client_createCollection rt collectionName
             (collection_metadata collectionName dimension description) b2 = (Inl error, b2)"
    and "message_includes error ''already exists''"
    and "client_getOrCreateCollection rt collectionName b2 = (Inr existing, b2)"
  shows "createCollection rt collectionName dimension description s
           = (Inr (), \<lparr> collections = (collections s)(collectionName \<mapsto> created), backend = b1 \<rparr>) \<and>
         createCollection rt collectionName dimension description \<lparr> collections = cache, backend = b2 \<rparr>
           = (Inr (), \<lparr> collections = cache(collectionName \<mapsto> existing), backend = b2 \<rparr>)"
  using assms by (simp add: createCollection_def)

theorem createCollection_idempotent_witness:
  "createCollection memory_runtime ''c'' 3 None fresh
     = (Inr (), \<lparr> collections = [''c'' \<mapsto> ''c''],
          backend = [''c'' \<mapsto> \<lparr> coll_metadata = collection_metadata ''c'' 3 None,
                                  coll_records = [] \<rparr>] \<rparr>) \<and>
   insert_documents memory_runtime ''c'' [example_doc ''x'' [1, 2, 3]]
       \<lparr> collections = [''c'' \<mapsto> ''c''],
         backend = [''c'' \<mapsto> \<lparr> coll_metadata = collection_metadata ''c'' 3 None,
                                 coll_records = [] \<rparr>] \<rparr>
     = (Inr (), \<lparr> collections = [''c'' \<mapsto> ''c''],
          backend = [''c'' \<mapsto> \<lparr> coll_metadata = collection_metadata ''c'' 3 None,
             coll_records = records_of (add_request_of [example_doc ''x'' [1, 2, 3]]) \<rparr>] \<rparr>) \<and>
   createCollection memory_runtime ''c'' 3 None
       \<lparr> collections = [''c'' \<mapsto> ''c''],
         backend = [''c'' \<mapsto> \<lparr> coll_metadata = collection_metadata ''c'' 3 None,
             coll_records = records_of (add_request_of [example_doc ''x'' [1, 2, 3]]) \<rparr>] \<rparr>
     = (Inr (), \<lparr> collections = [''c'' \<mapsto> ''c''],
          backend = [''c'' \<mapsto> \<lparr> coll_metadata = collection_metadata ''c'' 3 None,
             coll_records = records_of (add_request_of [example_doc ''x'' [1, 2, 3]]) \<rparr>] \<rparr>)"
proof -
  let ?b2 = "[''c'' \<mapsto> \<lparr> coll_metadata = collection_metadata ''c'' 3 None,
             coll_records = records_of (add_request_of [example_doc ''x'' [1, 2, 3]]) \<rparr>]"
  have 1: "client_createCollection memory_runtime ''c'' (collection_metadata ''c'' 3 None)
             (backend fresh)
           = (Inr ''c'', [''c'' \<mapsto> \<lparr> coll_metadata = collection_metadata ''c'' 3 None,
                                  coll_records = [] \<rparr>])"
    by (simp add: memory_runtime_def memory_createCollection_def fresh_def)
  have 2: "client_createCollection memory_runtime ''c'' (collection_metadata ''c'' 3 None) ?b2
           = (Inl (Error (''Collection '' @ ''c'' @ '' already exists'')), ?b2)"
    by (simp add: memory_runtime_def memory_createCollection_def)
  have 3: "message_includes (Error (''Collection '' @ ''c'' @ '' already exists'')) ''already exists''"
    by (simp add: message_includes_def)
  have 4: "client_getOrCreateCollection memory_runtime ''c'' ?b2 = (Inr ''c'', ?b2)"
    by (simp add: memory_runtime_def memory_getOrCreateCollection_def)
  have 5: "insert_documents memory_runtime ''c'' [example_doc ''x'' [1, 2, 3]]
       \<lparr> collections = [''c'' \<mapsto> ''c''],
         backend = [''c'' \<mapsto> \<lparr> coll_metadata = collection_metadata ''c'' 3 None,
                                 coll_records = [] \<rparr>] \<rparr>
     = (Inr (), \<lparr> collections = [''c'' \<mapsto> ''c''], backend = ?b2 \<rparr>)"
    by (simp add: insert_documents_def getOrCreateCollection_cached memory_runtime_def
        memory_add_def add_request_of_def records_of_def)
  from createCollection_idempotent [OF 1 2 3 4, of "[''c'' \<mapsto> ''c'']"] 5
  show ?thesis by (simp add: fresh_def)
qed








lemma assign_new: "k \<notin> set (map fst acc) \<Longrightarrow> assign k v acc = acc @ [(k, v)]"
  by (induction acc) auto

lemma fold_assign_distinct:
  assumes "distinct (map fst entries)"
    and "''__proto__'' \<notin> set (map fst entries)"
    and "set (map fst entries) \<inter> set (map fst acc) = {}"
  shows "fold (\<lambda>(key, v) whereClause.
                 if key = ''__proto__'' then whereClause
                 else assign key (JObj [(''$eq'', v)]) whereClause) entries acc
           = acc @ map (\<lambda>(key, v). (key, JObj [(''$eq'', v)])) entries"
  using assms
proof (induction entries arbitrary: acc)
  case Nil
  then show ?case by simp
next
  case (Cons e entries)
  obtain k v where e: "e = (k, v)" by (cases e)
  from Cons.prems have k: "k \<noteq> ''__proto__''" "k \<notin> set (map fst acc)"
    by (auto simp: e)
  have "set (map fst entries) \<inter> set (map fst (acc @ [(k, JObj [(''$eq'', v)])])) = {}"
    using Cons.prems by (auto simp: e)
  with Cons.IH [of "acc @ [(k, JObj [(''$eq'', v)])]"] Cons.prems k
  show ?case by (simp add: e assign_new)
qed

lemma split_on_no_sep: "sep \<notin> set s \<Longrightarrow> split_on sep s = [s]"
  by (induction s) auto

lemma split_on_first: "sep \<notin> set k \<Longrightarrow> split_on sep (k @ sep # rest) = k # split_on sep rest"
  by (induction k) auto

lemma split_on_nonempty: "split_on sep s \<noteq> []"
  by (induction s) (auto split: list.splits)

lemma length_split_on: "length (split_on sep s) = Suc (length (filter (\<lambda>c. c = sep) s))"
  by (induction s) (auto split: list.splits simp: split_on_nonempty)

text \<open>
  Claim C8, as the code has it. No filter is ever rejected. \<open>buildWhereClause\<close>
  turns an absent filter into no where clause and a flat mapping into one
  \<open>$eq\<close> test per field, in order. \<open>parseFilterExpression\<close> returns whatever
  \<open>JSON.parse\<close> makes of the filter, unchanged; a filter that does not parse and
  has the form \<open>key=value\<close> becomes one \<open>$eq\<close> test of the trimmed key against the
  trimmed value; a filter that does not parse and does not hold exactly one \<open>=\<close>
  becomes no filter at all.
\<close>

theorem filters_pass_unchecked:
  "buildWhereClause None = None \<and>
   (distinct (map fst entries) \<longrightarrow> ''__proto__'' \<notin> set (map fst entries) \<longrightarrow>
      buildWhereClause (Some entries)
        = Some (JObj (map (\<lambda>(key, v). (key, JObj [(''$eq'', v)])) entries))) \<and>
   (JSON_parse rt filter_str = Some parsed \<longrightarrow>
      parseFilterExpression rt filter_str = Some parsed) \<and>
   (JSON_parse rt filter_str = None \<longrightarrow>
      CHR ''='' \<notin> set k \<longrightarrow> CHR ''='' \<notin> set v \<longrightarrow> filter_str = k @ ''='' @ v \<longrightarrow>
      parseFilterExpression rt filter_str
        = Some (JObj [(trim k, JObj [(''$eq'', JStr (trim v))])])) \<and>
   (JSON_parse rt filter_str = None \<longrightarrow>
      length (filter (\<lambda>c. c = CHR ''='') filter_str) \<noteq> 1 \<longrightarrow>
      parseFilterExpression rt filter_str = None)"
proof (intro conjI impI)
  show "buildWhereClause None = None"
    by (simp add: buildWhereClause_def)
  show "buildWhereClause (Some entries)
          = Some (JObj (map (\<lambda>(key, v). (key, JObj [(''$eq'', v)])) entries))"
    if "distinct (map fst entries)" and "''__proto__'' \<notin> set (map fst entries)"
    using fold_assign_distinct [OF that, of "[]"] by (simp add: buildWhereClause_def)
  show "parseFilterExpression rt filter_str = Some parsed"
    if "JSON_parse rt filter_str = Some parsed"
    using that by (simp add: parseFilterExpression_def)
  show "parseFilterExpression rt filter_str
          = Some (JObj [(trim k, JObj [(''$eq'', JStr (trim v))])])"
    if "JSON_parse rt filter_str = None" and "CHR ''='' \<notin> set k" and "CHR ''='' \<notin> set v"
      and "filter_str = k @ ''='' @ v"
  proof -
    have "split_on CHR ''='' filter_str = [k, v]"
      using that by (simp add: split_on_first split_on_no_sep)
    with that show ?thesis by (simp add: parseFilterExpression_def)
  qed
  show "parseFilterExpression rt filter_str = None"
    if "JSON_parse rt filter_str = None"
      and "length (filter (\<lambda>c. c = CHR ''='') filter_str) \<noteq> 1"
    using that by (simp add: parseFilterExpression_def length_split_on)
qed

theorem filters_pass_unchecked_witness:
  "buildWhereClause (Some [(''language'', JStr ''go''), (''startLine'', JNum 3)])
     = Some (JObj [(''language'', JObj [(''$eq'', JStr ''go'')]),
                   (''startLine'', JObj [(''$eq'', JNum 3)])]) \<and>
   parseFilterExpression memory_runtime
       age_filter
     = Some (JObj [(''age'', JObj [(''$gt'', JNum 5)])]) \<and>
   parseFilterExpression memory_runtime ''language = go''
     = Some (JObj [(''language'', JObj [(''$eq'', JStr ''go'')])]) \<and>
   parseFilterExpression memory_runtime ''a > 5'' = None"
proof -
  have 1: "distinct (map fst [(''language'', JStr ''go''), (''startLine'', JNum 3)])"
    and 2: "''__proto__'' \<notin> set (map fst [(''language'', JStr ''go''), (''startLine'', JNum 3)])"
    by simp_all
  have 3: "JSON_parse memory_runtime
       age_filter = Some (JObj [(''age'', JObj [(''$gt'', JNum 5)])])"
    by (simp add: memory_runtime_def example_JSON_parse_def age_filter_def)
  have 4: "JSON_parse memory_runtime ''language = go'' = None"
    and 5: "CHR ''='' \<notin> set ''language ''" and 6: "CHR ''='' \<notin> set '' go''"
    and 7: "''language = go'' = ''language '' @ ''='' @ '' go''"
    by (simp_all add: memory_runtime_def example_JSON_parse_def)
  have 8: "JSON_parse memory_runtime ''a > 5'' = None"
    and 9: "length (filter (\<lambda>c. c = CHR ''='') ''a > 5'') \<noteq> 1"
    by (simp_all add: memory_runtime_def example_JSON_parse_def)
  have t: "trim ''language '' = ''language''" "trim '' go'' = ''go''"
    by (simp_all add: trim_def is_space_def)
  have a: "buildWhereClause (Some [(''language'', JStr ''go''), (''startLine'', JNum 3)])
     = Some (JObj (map (\<lambda>(key, v). (key, JObj [(''$eq'', v)]))
                     [(''language'', JStr ''go''), (''startLine'', JNum 3)]))"
    using filters_pass_unchecked
         [of "[(''language'', JStr ''go''), (''startLine'', JNum 3)]" memory_runtime "[]" JNull "[]" "[]"]
      1 2 by blast
  have b: "parseFilterExpression memory_runtime
       age_filter
     = Some (JObj [(''age'', JObj [(''$gt'', JNum 5)])])"
    using filters_pass_unchecked
         [of "[]" memory_runtime
             age_filter
             "JObj [(''age'', JObj [(''$gt'', JNum 5)])]" "[]" "[]"] 3 by blast
  have c: "parseFilterExpression memory_runtime ''language = go''
     = Some (JObj [(trim ''language '', JObj [(''$eq'', JStr (trim '' go''))])])"
    using filters_pass_unchecked [of "[]" memory_runtime "''language = go''" JNull "''language ''" "'' go''"]
         4 5 6 7 by blast
  have d: "parseFilterExpression memory_runtime ''a > 5'' = None"
    using filters_pass_unchecked [of "[]" memory_runtime "''a > 5''" JNull "[]" "[]"] 8 9 by blast
  from a have a': "buildWhereClause (Some [(''language'', JStr ''go''), (''startLine'', JNum 3)])
     = Some (JObj [(''language'', JObj [(''$eq'', JStr ''go'')]),
                   (''startLine'', JObj [(''$eq'', JNum 3)])])"
    by simp
  from c have c': "parseFilterExpression memory_runtime ''language = go''
     = Some (JObj [(''language'', JObj [(''$eq'', JStr ''go'')])])"
    by (simp only: t)
  from a' b c' d show ?thesis by (intro conjI)
qed

text \<open>
  The claim C8 as the specification words it fails: the filter \<open>a > 5\<close>, which
  does not parse and uses an operator beyond equality, is treated as no filter; and
  a filter whose value is the operator object \<open>{$gt: 5}\<close> is wrapped into an
  equality test against that object. Neither raises an error.
\<close>

theorem filters_counterexample:
  "parseFilterExpression memory_runtime ''a > 5'' = None \<and>
   buildWhereClause (Some [(''age'', JObj [(''$gt'', JNum 5)])])
     = Some (JObj [(''age'', JObj [(''$eq'', JObj [(''$gt'', JNum 5)])])])"
  by (simp add: parseFilterExpression_def buildWhereClause_def memory_runtime_def
      example_JSON_parse_def)

lemma two_documents_state:
  "two_documents = \<lparr> collections = [''c'' \<mapsto> ''c''],
      backend = [''c'' \<mapsto> \<lparr> coll_metadata = Map.empty,
         coll_records = records_of (add_request_of
            [example_doc ''a'' [1, 0], example_doc ''b'' [1, 1 / 2]]) \<rparr>] \<rparr>"
  by (simp add: two_documents_def memory_defs adapter_defs)

text \<open>Without a request whose \<open>anns_field\<close> is \<open>vector\<close>, \<open>hybridSearch\<close> throws at once.\<close>

lemma hybridSearch_needs_dense_request:
  "find (\<lambda>req. anns_field req = ''vector'') searchRequests = None \<Longrightarrow>
     hybridSearch rt collectionName searchRequests options s
       = (Inl (Error ''Dense vector search request is required for hybrid search''), s)"
  by (simp add: hybridSearch_def)

text \<open>
  Claim C3, as the code has it. \<open>hybridSearch\<close> fuses nothing: its result is
  the result of the dense \<open>search\<close> for the first request whose \<open>anns_field\<close> is
  \<open>vector\<close>, with \<open>options.limit || denseRequest.limit\<close> as \<open>topK\<close> and no filter;
  every other request is ignored. So the fused list is the dense list, and the
  document that is first in the dense list is first in the fused list.
\<close>

theorem hybridSearch_is_dense_search:
  assumes "find (\<lambda>req. anns_field req = ''vector'') searchRequests = Some denseRequest"
  shows "hybridSearch rt collectionName searchRequests options s
           = search rt collectionName (data denseRequest)
               \<lparr> topK = Some (num_or (limit options) (request_limit denseRequest)),
                 filter_option = None \<rparr> s"
proof -
  have "map (\<lambda>result. \<lparr> document = document result, score = score result \<rparr>) results = results"
    for results :: "SearchResult list"
    by (induction results) simp_all
  with assms show ?thesis
    by (simp add: hybridSearch_def split: prod.split sum.split)
qed

theorem hybridSearch_is_dense_search_witness:
  "hybridSearch memory_runtime ''c'' [sparse_request, dense_request] \<lparr> limit = None \<rparr> two_documents
     = search memory_runtime ''c'' (Vector [1, 0]) \<lparr> topK = Some 10, filter_option = None \<rparr>
         two_documents"
  using hybridSearch_is_dense_search
    [of "[sparse_request, dense_request]" dense_request memory_runtime "''c''"
        "\<lparr> limit = None \<rparr>" two_documents]
  by (simp add: sparse_request_def dense_request_def num_or_def)

text \<open>
  The claim C3 as the specification words it fails: with documents \<open>a\<close> and \<open>b\<close>
  at dense scores 1 and 3/4 and a lexical list that holds \<open>b\<close> alone with score 1,
  the equally weighted sum puts \<open>b\<close> first with 7/8 and \<open>a\<close> second with 1/2;
  \<open>hybridSearch\<close>, given the dense and the lexical request, returns \<open>a\<close> first
  with 1 and \<open>b\<close> second with 3/4, the dense scores.
\<close>

theorem hybridSearch_counterexample:
  "map_sum (\<lambda>e. e) ranked_of
      (fst (hybridSearch memory_runtime ''c'' [sparse_request, dense_request] \<lparr> limit = None \<rparr>
              two_documents))
     = Inr [(''a'', 1), (''b'', 3 / 4)] \<and>
   spec_weighted_fusion (1 / 2) (1 / 2) [(''a'', 1), (''b'', 3 / 4)] [(''b'', 1)]
     = [(''b'', 7 / 8), (''a'', 1 / 2)]"
proof
  show "map_sum (\<lambda>e. e) ranked_of
      (fst (hybridSearch memory_runtime ''c'' [sparse_request, dense_request] \<lparr> limit = None \<rparr>
              two_documents))
     = Inr [(''a'', 1), (''b'', 3 / 4)]"
    by (simp add: two_documents_state hybridSearch_def sparse_request_def dense_request_def
        search_def getOrCreateCollection_def memory_defs add_request_of_def search_request_def
        search_results_def search_result_def buildWhereClause_def num_or_def ranked_of_def
        cell_def nth_opt_def distance_or_0_def str_or_def power2_eq_square)
  show "spec_weighted_fusion (1 / 2) (1 / 2) [(''a'', 1), (''b'', 3 / 4)] [(''b'', 1)]
     = [(''b'', 7 / 8), (''a'', 1 / 2)]"
    by (simp add: spec_weighted_fusion_def score_in_def ranks_before_def)
qed

text \<open>
  In that example no choice of positive weights makes the weighted sum agree with
  what \<open>hybridSearch\<close> returns.
\<close>

lemma hybridSearch_not_a_weighted_sum:
  "\<not> (\<exists>w_dense w_lexical. 0 < w_dense \<and> 0 < w_lexical \<and>
        spec_weighted_fusion w_dense w_lexical [(''a'', 1), (''b'', 3 / 4)] [(''b'', 1)]
          = [(''a'', 1), (''b'', 3 / 4)])"
  by (auto simp: spec_weighted_fusion_def score_in_def ranks_before_def split: if_splits)







end
